theory Spec2Isabelle
  imports Main "HOL-Library.Word"
begin

text \<open>
  The input component of \<open>angular-components-master/input/input.component.ts\<close>: its value
  sanitisation, its interaction-state tracker and its value pipeline, embedded as
  functions on the component's fields. The ECMAScript operations the component calls on
  strings and Numbers come first, since what the component returns is what they compute.
\<close>

section \<open>ECMAScript strings\<close>

text \<open>
  An ECMAScript string is a sequence of 16-bit code units; \<open>length\<close>, \<open>substr\<close> and a
  regular expression without the \<open>u\<close> flag all work on code units. \<open>js\<close> writes an
  ASCII literal of the source as such a sequence.
\<close>

type_synonym code_unit = "16 word"
type_synonym js_string = "code_unit list"

definition js :: "string \<Rightarrow> js_string" where
  "js s = map of_char s"

text \<open>The character class \<open>\d\<close> (without the \<open>u\<close> flag): the ten ASCII digits.\<close>

definition is_decimal_digit :: "code_unit \<Rightarrow> bool" where
  "is_decimal_digit c \<longleftrightarrow> 0x30 \<le> c \<and> c \<le> 0x39"

definition digit_value :: "code_unit \<Rightarrow> int" where
  "digit_value c = uint c - 48"

definition digit_char :: "int \<Rightarrow> code_unit" where
  "digit_char d = of_int (48 + d)"

text \<open>The mathematical value of a digit sequence in a radix, most significant digit first.\<close>

definition digits_value :: "int \<Rightarrow> (code_unit \<Rightarrow> int) \<Rightarrow> js_string \<Rightarrow> int" where
  "digits_value radix val ds = foldl (\<lambda>a c. radix * a + val c) 0 ds"

text \<open>The decimal representation of a non-negative integer, without leading zeros.\<close>

function decimal_digits :: "int \<Rightarrow> js_string" where
  "decimal_digits n =
     (if n < 10 then [digit_char n] else decimal_digits (n div 10) @ [digit_char (n mod 10)])"
  by pat_completeness auto
termination
  by (relation "measure nat") auto

declare decimal_digits.simps [simp del]

section \<open>ECMAScript Numbers\<close>

text \<open>
  A Number is an IEEE 754 binary64 value. \<open>Finite neg m e\<close> stands for the value
  \<open>(-1)^neg * m * 2^e\<close> with \<open>0 \<le> m\<close>, held exactly in integers; every finite binary64
  value has this form with \<open>m < 2^53\<close> and \<open>-1074 \<le> e \<le> 971\<close>. \<open>Infinity neg\<close> is the
  infinity of that sign. The integers below are mathematical integers, as in ECMA-262.
\<close>

datatype js_number = NaN | Infinity bool | Finite bool int int

text \<open>The number of binary digits of a positive integer.\<close>

function bit_length :: "int \<Rightarrow> int" where
  "bit_length n = (if n \<le> 0 then 0 else 1 + bit_length (n div 2))"
  by pat_completeness auto
termination
  by (relation "measure nat") auto

declare bit_length.simps [simp del]

text \<open>\<open>scaled_le a d b\<close> decides \<open>a * 2^d \<le> b\<close> for an integer exponent \<open>d\<close>.\<close>

definition scaled_le :: "int \<Rightarrow> int \<Rightarrow> int \<Rightarrow> bool" where
  "scaled_le a d b \<longleftrightarrow> (if 0 \<le> d then a * 2 ^ nat d \<le> b else a \<le> b * 2 ^ nat (- d))"

text \<open>\<open>floor_log2 p q\<close> is the integer \<open>l\<close> with \<open>2^l \<le> p / q < 2^(l + 1)\<close>, for positive \<open>p\<close>, \<open>q\<close>.\<close>

definition floor_log2 :: "int \<Rightarrow> int \<Rightarrow> int" where
  "floor_log2 p q =
     (let d = bit_length p - bit_length q
      in if scaled_le q d p then d else d - 1)"

text \<open>The integer nearest to \<open>a / b\<close>, for \<open>0 \<le> a\<close> and \<open>0 < b\<close>; a tie goes to the even one.\<close>

definition round_half_even :: "int \<Rightarrow> int \<Rightarrow> int" where
  "round_half_even a b =
     (let f = a div b; r = a mod b
      in if 2 * r < b then f
         else if b < 2 * r then f + 1
         else if even f then f else f + 1)"

text \<open>
  The Number value for the rational \<open>(-1)^neg * p / q\<close>, \<open>0 \<le> p\<close> and \<open>0 < q\<close> (ECMA-262,
  "the Number value for x"): round to the nearest binary64 value, ties to the even significand, with
  gradual underflow below \<open>2^-1022\<close> and infinity from \<open>2^1024\<close> on.
\<close>

definition number_value_for :: "bool \<Rightarrow> int \<Rightarrow> int \<Rightarrow> js_number" where
  "number_value_for neg p q =
     (if p = 0 then Finite neg 0 0
      else
        let e = max (floor_log2 p q - 52) (- 1074);
            m = (if 0 \<le> e then round_half_even p (q * 2 ^ nat e)
                 else round_half_even (p * 2 ^ nat (- e)) q);
            m' = (if m = 2 ^ 53 then 2 ^ 52 else m);
            e' = (if m = 2 ^ 53 then e + 1 else e)
        in if 971 < e' then Infinity neg else Finite neg m' e')"

text \<open>Do \<open>m1 * 2^e1\<close> and \<open>m2 * 2^e2\<close> denote the same real number?\<close>

definition same_value :: "int \<Rightarrow> int \<Rightarrow> int \<Rightarrow> int \<Rightarrow> bool" where
  "same_value m1 e1 m2 e2 \<longleftrightarrow>
     (let lo = min e1 e2 in m1 * 2 ^ nat (e1 - lo) = m2 * 2 ^ nat (e2 - lo))"

subsection \<open>StringToNumber\<close>

text \<open>\<open>StrWhiteSpaceChar\<close>: the WhiteSpace and LineTerminator code points.\<close>

definition is_str_white_space_char :: "code_unit \<Rightarrow> bool" where
  "is_str_white_space_char c \<longleftrightarrow>
     c \<in> {0x9, 0xA, 0xB, 0xC, 0xD, 0x20, 0xA0, 0x1680, 0x2028, 0x2029, 0x202F, 0x205F,
          0x3000, 0xFEFF}
     \<or> (0x2000 \<le> c \<and> c \<le> 0x200A)"

definition strip_white_space :: "js_string \<Rightarrow> js_string" where
  "strip_white_space s =
     rev (dropWhile is_str_white_space_char (rev (dropWhile is_str_white_space_char s)))"

definition is_hex_digit :: "code_unit \<Rightarrow> bool" where
  "is_hex_digit c \<longleftrightarrow>
     is_decimal_digit c \<or> (0x41 \<le> c \<and> c \<le> 0x46) \<or> (0x61 \<le> c \<and> c \<le> 0x66)"

definition hex_digit_value :: "code_unit \<Rightarrow> int" where
  "hex_digit_value c =
     (if is_decimal_digit c then uint c - 48
      else if c \<le> 0x46 then uint c - 55 else uint c - 87)"

definition is_octal_digit :: "code_unit \<Rightarrow> bool" where
  "is_octal_digit c \<longleftrightarrow> 0x30 \<le> c \<and> c \<le> 0x37"

definition is_binary_digit :: "code_unit \<Rightarrow> bool" where
  "is_binary_digit c \<longleftrightarrow> c = 0x30 \<or> c = 0x31"

text \<open>
  \<open>NonDecimalIntegerLiteral\<close>: \<open>0x\<close>, \<open>0o\<close> or \<open>0b\<close> (either case) followed by one or more
  digits of that radix. The result is the mathematical value, or \<open>None\<close> when the text
  is not such a literal.
\<close>

definition non_decimal_integer_literal :: "js_string \<Rightarrow> int option" where
  "non_decimal_integer_literal t =
     (case t of
        z # x # ds \<Rightarrow>
          if ds = [] \<or> z \<noteq> 0x30 then None
          else if (x = 0x78 \<or> x = 0x58) \<and> list_all is_hex_digit ds
            then Some (digits_value 16 hex_digit_value ds)
          else if (x = 0x6F \<or> x = 0x4F) \<and> list_all is_octal_digit ds
            then Some (digits_value 8 digit_value ds)
          else if (x = 0x62 \<or> x = 0x42) \<and> list_all is_binary_digit ds
            then Some (digits_value 2 digit_value ds)
          else None
      | _ \<Rightarrow> None)"

text \<open>An optional sign: whether it is \<open>-\<close>, and the rest of the text.\<close>

definition split_sign :: "js_string \<Rightarrow> bool \<times> js_string" where
  "split_sign t =
     (case t of
        [] \<Rightarrow> (False, [])
      | c # r \<Rightarrow> if c = 0x2B then (False, r) else if c = 0x2D then (True, r) else (False, t))"

text \<open>
  \<open>ExponentPart\<close>, optional: nothing, or \<open>e\<close>/\<open>E\<close>, an optional sign and one or more
  decimal digits. \<open>None\<close> when the text is neither.
\<close>

definition exponent_part :: "js_string \<Rightarrow> int option" where
  "exponent_part t =
     (case t of
        [] \<Rightarrow> Some 0
      | c # r \<Rightarrow>
          if c = 0x65 \<or> c = 0x45 then
            (let (eneg, ds) = split_sign r
             in if ds \<noteq> [] \<and> list_all is_decimal_digit ds
                then Some (if eneg then - digits_value 10 digit_value ds
                           else digits_value 10 digit_value ds)
                else None)
          else None)"

text \<open>
  \<open>StrDecimalLiteral\<close>: an optional sign, then \<open>Infinity\<close> or decimal digits with an
  optional fraction and exponent (at least one digit before or after the point).
\<close>

definition str_decimal_literal :: "js_string \<Rightarrow> js_number" where
  "str_decimal_literal t =
     (let (neg, u) = split_sign t
      in if u = js ''Infinity'' then Infinity neg
         else
           let ip = takeWhile is_decimal_digit u;
               r1 = dropWhile is_decimal_digit u;
               has_point = (r1 \<noteq> [] \<and> hd r1 = 0x2E);
               fp = (if has_point then takeWhile is_decimal_digit (tl r1) else []);
               r2 = (if has_point then dropWhile is_decimal_digit (tl r1) else r1)
           in if ip = [] \<and> fp = [] then NaN
              else case exponent_part r2 of
                     None \<Rightarrow> NaN
                   | Some ex \<Rightarrow>
                       let d = digits_value 10 digit_value (ip @ fp);
                           x = ex - int (length fp)
                       in if 0 \<le> x then number_value_for neg (d * 10 ^ nat x) 1
                          else number_value_for neg d (10 ^ nat (- x)))"

text \<open>
  \<open>StringToNumber\<close> (what \<open>Number(s)\<close> does to a string): white space is stripped at both
  ends, the empty text is \<open>+0\<close>, a text that is not a \<open>StrNumericLiteral\<close> is \<open>NaN\<close>.
  Where ECMA-262 leaves the rounding of a literal with more than 20 significant digits
  to the implementation, the value is rounded correctly, as the engines in use do.
\<close>

definition StringToNumber :: "js_string \<Rightarrow> js_number" where
  "StringToNumber str =
     (let t = strip_white_space str
      in if t = [] then Finite False 0 0
         else case non_decimal_integer_literal t of
                Some n \<Rightarrow> number_value_for False n 1
              | None \<Rightarrow> str_decimal_literal t)"

subsection \<open>Number::toString\<close>

text \<open>
  \<open>decimal_exponent p q\<close> is the integer \<open>n\<close> with \<open>10^(n - 1) \<le> p / q < 10^n\<close>, for
  positive \<open>p\<close>, \<open>q\<close>.
\<close>

function leading_zeros :: "int \<Rightarrow> int \<Rightarrow> int" where
  "leading_zeros p q = (if p \<le> 0 \<or> q \<le> p then 0 else 1 + leading_zeros (10 * p) q)"
  by pat_completeness auto
termination
  by (relation "measure (\<lambda>(p, q). nat (q - p))") auto

declare leading_zeros.simps [simp del]

definition decimal_exponent :: "int \<Rightarrow> int \<Rightarrow> int" where
  "decimal_exponent p q =
     (if q \<le> p then int (length (decimal_digits (p div q)))
      else 1 - leading_zeros p q)"

text \<open>
  Does the decimal \<open>s * 10^(n - k)\<close> convert to the Number \<open>m * 2^e\<close>?
\<close>

definition converts_to :: "int \<Rightarrow> int \<Rightarrow> int \<Rightarrow> int \<Rightarrow> bool" where
  "converts_to s x m e =
     (case (if 0 \<le> x then number_value_for False (s * 10 ^ nat x) 1
            else number_value_for False s (10 ^ nat (- x))) of
        Finite _ m' e' \<Rightarrow> same_value m' e' m e
      | _ \<Rightarrow> False)"

text \<open>
  Step 5 of \<open>Number::toString\<close>: integers \<open>n\<close>, \<open>k\<close>, \<open>s\<close> with \<open>10^(k - 1) \<le> s < 10^k\<close>
  such that \<open>s * 10^(n - k)\<close> converts to the Number, \<open>k\<close> as small as possible and, among
  several \<open>s\<close>, the one closest to the Number (the even one on a tie). The Number is
  \<open>p / q\<close> = \<open>m * 2^e\<close> and \<open>n\<close> its decimal exponent. At each \<open>k\<close> the candidates are the
  two \<open>k\<close>-digit decimals around \<open>p / q\<close>; the upper one may be the next power of ten,
  which is \<open>10^(k - 1)\<close> at \<open>n + 1\<close>. Seventeen digits always identify a binary64 value,
  so the search stops there. The result is \<open>(s, n)\<close>.
\<close>

function shortest_decimal :: "int \<Rightarrow> int \<Rightarrow> int \<Rightarrow> int \<Rightarrow> int \<Rightarrow> nat \<Rightarrow> int \<times> int" where
  "shortest_decimal p q m e n k =
     (let x = n - int k;
          num = (if 0 \<le> x then p else p * 10 ^ nat (- x));
          den = (if 0 \<le> x then q * 10 ^ nat x else q);
          lo = num div den;
          r = num mod den;
          hi = (if lo + 1 = 10 ^ k then (10 ^ (k - 1), n + 1) else (lo + 1, n));
          lo_ok = converts_to lo x m e;
          hi_ok = converts_to (lo + 1) x m e;
          lo_nearer = (2 * r < den \<or> (2 * r = den \<and> even lo))
      in if lo_ok \<and> hi_ok then (if lo_nearer then (lo, n) else hi)
         else if lo_ok then (lo, n)
         else if hi_ok then hi
         else if 17 \<le> k then (if lo_nearer then (lo, n) else hi)
         else shortest_decimal p q m e n (Suc k))"
  by pat_completeness auto
termination
  by (relation "measure (\<lambda>(p, q, m, e, n, k). 17 - k)") auto

declare shortest_decimal.simps [simp del]

text \<open>Steps 6 to 12 of \<open>Number::toString\<close> for radix 10: the digits of \<open>s\<close> laid out for \<open>n\<close>.\<close>

definition layout_decimal :: "int \<Rightarrow> int \<Rightarrow> js_string" where
  "layout_decimal s n =
     (let ds = decimal_digits s; k = int (length ds)
      in if - 5 \<le> n \<and> n \<le> 21 then
           (if k \<le> n then ds @ replicate (nat (n - k)) 0x30
            else if 0 < n then take (nat n) ds @ js ''.'' @ drop (nat n) ds
            else js ''0.'' @ replicate (nat (- n)) 0x30 @ ds)
         else
           (let ex = n - 1;
                c = (if 0 \<le> ex then js ''+'' else js ''-'');
                ed = decimal_digits \<bar>ex\<bar>
            in if k = 1 then ds @ js ''e'' @ c @ ed
               else take 1 ds @ js ''.'' @ drop 1 ds @ js ''e'' @ c @ ed))"

fun NumberToString :: "js_number \<Rightarrow> js_string" where
  "NumberToString NaN = js ''NaN''"
| "NumberToString (Infinity neg) = (if neg then js ''-Infinity'' else js ''Infinity'')"
| "NumberToString (Finite neg m e) =
     (if m = 0 then js ''0''
      else
        let p = (if 0 \<le> e then m * 2 ^ nat e else m);
            q = (if 0 \<le> e then 1 else 2 ^ nat (- e));
            (s, n) = shortest_decimal p q m e (decimal_exponent p q) 1
        in (if neg then js ''-'' else []) @ layout_decimal s n)"

section \<open>The values that reach the component\<close>

text \<open>
  \<open>writeValue\<close> takes \<open>any\<close>, and a bound \<open>value\<close> may be \<open>null\<close> at run time. The
  primitive values are modelled; objects, whose \<open>toString\<close> is arbitrary code, are not.
\<close>

datatype js_value = JSUndefined | JSNull | JSBoolean bool | JSNumber js_number | JSString js_string

text \<open>
  The abstract operation \<open>ToString\<close>. On a string, a Number and a Boolean the method
  call \<open>value.toString()\<close> gives the same; on \<open>null\<close> and \<open>undefined\<close> that call throws,
  and the component tests for them before it calls.
\<close>

fun ToString :: "js_value \<Rightarrow> js_string" where
  "ToString (JSString s) = s"
| "ToString (JSNumber x) = NumberToString x"
| "ToString (JSBoolean b) = (if b then js ''true'' else js ''false'')"
| "ToString JSNull = js ''null''"
| "ToString JSUndefined = js ''undefined''"

text \<open>
  \<open>Array.prototype.join\<close>: an element that is \<open>undefined\<close> or \<open>null\<close> contributes the
  empty string, any other its \<open>ToString\<close>.
\<close>

definition join_element :: "js_value \<Rightarrow> js_string" where
  "join_element v = (if v = JSUndefined \<or> v = JSNull then [] else ToString v)"

fun join :: "js_string \<Rightarrow> js_value list \<Rightarrow> js_string" where
  "join sep [] = []"
| "join sep [x] = join_element x"
| "join sep (x # y # ys) = join_element x @ sep @ join sep (y # ys)"

text \<open>Truthiness of a Number: everything but \<open>NaN\<close> and the zeros.\<close>

fun truthy_number :: "js_number \<Rightarrow> bool" where
  "truthy_number NaN = False"
| "truthy_number (Infinity neg) = True"
| "truthy_number (Finite neg m e) = (m \<noteq> 0)"

text \<open>\<open>len > x\<close> for a string length \<open>len\<close> and a Number \<open>x\<close>.\<close>

fun length_greater :: "nat \<Rightarrow> js_number \<Rightarrow> bool" where
  "length_greater len NaN = False"
| "length_greater len (Infinity neg) = neg"
| "length_greater len (Finite neg m e) =
     (if neg then 0 < m \<or> 0 < len else \<not> scaled_le (int len) (- e) m)"

text \<open>
  \<open>s.substr(0, x)\<close>: \<open>x\<close> is truncated to an integer (\<open>NaN\<close> to 0) and clamped between 0
  and the length of \<open>s\<close>.
\<close>

fun substr_from_start :: "js_string \<Rightarrow> js_number \<Rightarrow> js_string" where
  "substr_from_start s NaN = []"
| "substr_from_start s (Infinity neg) = (if neg then [] else s)"
| "substr_from_start s (Finite neg m e) =
     (if neg then []
      else take (nat (if 0 \<le> e then m * 2 ^ nat e else m div 2 ^ nat (- e))) s)"

section \<open>The input component\<close>

text \<open>
  Modelled from the spec: the declaration of \<open>NumericInputOptions\<close>
  (\<open>models/input/numeric-input-options.model\<close>) is not among the sources; the spec gives
  the numeric-mode configuration the flags \<open>integer\<close>, \<open>preventEmpty\<close> and \<open>percents\<close>, and
  the component reads exactly these. A flag is \<open>None\<close> when the object has no such
  property and \<open>Some b\<close> when it has one whose value is truthy (\<open>b\<close>) or not.
\<close>

record NumericInputOptions =
  integer :: "bool option"
  preventEmpty :: "bool option"
  percents :: "bool option"

definition truthy :: "bool option \<Rightarrow> bool" where
  "truthy f \<longleftrightarrow> f = Some True"

definition DEFAULT_NUMERIC_OPTIONS :: NumericInputOptions where
  "DEFAULT_NUMERIC_OPTIONS = \<lparr>integer = Some True, preventEmpty = None, percents = None\<rparr>"

text \<open>The object spread \<open>{...a, ...b}\<close>: a property of \<open>b\<close> wins over that of \<open>a\<close>.\<close>

definition spread :: "NumericInputOptions \<Rightarrow> NumericInputOptions \<Rightarrow> NumericInputOptions" where
  "spread a b =
     \<lparr>integer = (case integer b of None \<Rightarrow> integer a | Some x \<Rightarrow> Some x),
      preventEmpty = (case preventEmpty b of None \<Rightarrow> preventEmpty a | Some x \<Rightarrow> Some x),
      percents = (case percents b of None \<Rightarrow> percents a | Some x \<Rightarrow> Some x)\<rparr>"

text \<open>
  The bound form control as \<open>ngDoCheck\<close> sees it: \<open>errors\<close> is \<open>null\<close> (\<open>None\<close>) or an object,
  given as its own properties in the order \<open>Object.keys\<close> lists them, each error code
  once. \<open>getError\<close> is the forms framework's lookup, \<open>null\<close> when there is no such
  error.
\<close>

record 'e AbstractControl =
  errors :: "(js_string \<times> 'e) list option"

record 'e FormControlName =
  control :: "'e AbstractControl option"

definition getError :: "'e AbstractControl \<Rightarrow> js_string \<Rightarrow> 'e option" where
  "getError c key = (case errors c of None \<Rightarrow> None | Some es \<Rightarrow> map_of es key)"

text \<open>
  The fields of the component. The occurrence flags are declared \<open>boolean\<close> and start
  out unassigned; the code tests them for truthiness, so unassigned is \<open>False\<close>. (The one
  strict comparison, \<open>focused !== focusReceived\<close>, can tell \<open>false\<close> from unassigned only
  when neither a mouse-down nor a focus is in the batch; the batch then holds a blur and
  the other disjunct decides.)
  \<open>propagateChange\<close> records whether a callback is registered. \<open>destroyed\<close> is whether
  \<open>destroy$\<close> has emitted, which ends both subscriptions; \<open>commitPending\<close> is the armed
  timer of \<open>debounceTime(0)\<close>; \<open>inputElementValue\<close> is \<open>inputElement.nativeElement.value\<close>.
  The inputs \<open>value\<close>, \<open>placeholder\<close>, \<open>iconType\<close> and \<open>dataAutotest\<close> are never read by the
  methods below and are left out. The view child \<open>inputElement\<close> is taken to be resolved,
  and the callbacks \<open>propagateChange\<close> and \<open>valueChange\<close> not to call back into the component
  before they return.
\<close>

record InputComponent =
  maxLength :: "js_number option"
  numeric :: "NumericInputOptions option"
  error :: js_string
  focused :: bool
  invalid :: bool
  currentValue :: js_string
  inputBlurOccured :: bool
  inputFocusOccured :: bool
  mouseDownOccured :: bool
  propagateChange :: bool
  destroyed :: bool
  commitPending :: bool
  inputElementValue :: js_string

text \<open>The component as its constructor leaves it, with an empty input element.\<close>

definition init :: InputComponent where
  "init =
     \<lparr>maxLength = None, numeric = None, error = [], focused = False, invalid = False,
      currentValue = [], inputBlurOccured = False, inputFocusOccured = False,
      mouseDownOccured = False, propagateChange = False, destroyed = False,
      commitPending = False, inputElementValue = []\<rparr>"

text \<open>What a method does to the world outside the component's fields, in order.\<close>

datatype effect =
    SetInputValue js_string bool
  | PropagateChange js_string
  | ValueChangeEmit js_string
  | NativeElementFocus
  | NativeElementSelect
  | DetectChanges

text \<open>
  The methods of the class, each under its own name. \<open>replace(/[^\d]/g, '')\<close> keeps the
  decimal digits; \<open>processed.length\<close> is truthy when it is positive.
\<close>

definition applyNumericCompliance :: "js_string \<Rightarrow> NumericInputOptions \<Rightarrow> js_string" where
  "applyNumericCompliance v numericOptions =
     (let processed = (if truthy (integer numericOptions) then filter is_decimal_digit v else v)
      in if 0 < length processed \<or> truthy (preventEmpty numericOptions)
         then NumberToString (StringToNumber processed)
         else processed)"

definition toPercentString :: "js_string \<Rightarrow> js_string" where
  "toPercentString v = (if 0 < length v then v @ js ''%'' else [])"

definition getDecoratedValue :: "js_string \<Rightarrow> NumericInputOptions option \<Rightarrow> js_string" where
  "getDecoratedValue v config_numeric =
     (case config_numeric of
        Some opts \<Rightarrow> if truthy (percents opts) \<and> 0 < length v then toPercentString v else v
      | None \<Rightarrow> v)"

definition processInputValue :: "InputComponent \<Rightarrow> js_string \<Rightarrow> js_string" where
  "processInputValue s v =
     (let processed =
            (case maxLength s of
               Some ml \<Rightarrow>
                 if truthy_number ml \<and> length_greater (length v) ml
                 then substr_from_start v ml else v
             | None \<Rightarrow> v)
      in case numeric s of
           Some opts \<Rightarrow> applyNumericCompliance processed opts
         | None \<Rightarrow> processed)"

text \<open>
  The element is an \<open>HTMLInputElement\<close>, and a text field, since the component writes a
  percent sign into it. Assigning to \<open>value\<close> runs the field's value sanitisation, which
  for a text field drops every line feed and carriage return of the assigned string.
\<close>

definition strip_newlines :: "js_string \<Rightarrow> js_string" where
  "strip_newlines v = filter (\<lambda>c. c \<noteq> 0x0A \<and> c \<noteq> 0x0D) v"

definition setInputValue :: "js_string \<Rightarrow> bool \<Rightarrow> InputComponent \<Rightarrow> InputComponent" where
  "setInputValue v decorate s =
     s\<lparr>inputElementValue :=
         strip_newlines (if decorate then getDecoratedValue v (numeric s) else v)\<rparr>"

text \<open>
  \<open>invalidateProperties\<close> arms the debounce timer; once \<open>destroy$\<close> has emitted nobody
  listens to the stream any more.
\<close>

definition invalidateProperties :: "InputComponent \<Rightarrow> InputComponent" where
  "invalidateProperties s = (if destroyed s then s else s\<lparr>commitPending := True\<rparr>)"

text \<open>The first stage of the value pipe: \<open>null\<close> and \<open>undefined\<close> become the empty string.\<close>

definition null_to_empty :: "js_value \<Rightarrow> js_string" where
  "null_to_empty v = (if v \<noteq> JSNull \<and> v \<noteq> JSUndefined then ToString v else [])"

text \<open>
  \<open>valueStream$.next(value)\<close>: the stages of the pipe run synchronously, in order, for
  each value, as long as \<open>destroy$\<close> has not emitted.
\<close>

definition valueStream_next :: "js_value \<Rightarrow> InputComponent \<Rightarrow> effect list \<times> InputComponent" where
  "valueStream_next v s =
     (if destroyed s then ([], s)
      else
        let v1 = null_to_empty v;
            v2 = processInputValue s v1;
            decorate = \<not> focused s;
            s1 = setInputValue v2 decorate s
        in if currentValue s1 \<noteq> v2
           then ([SetInputValue v2 decorate]
                   @ (if propagateChange s1 then [PropagateChange v2] else [])
                   @ [ValueChangeEmit v2],
                 s1\<lparr>currentValue := v2\<rparr>)
           else ([SetInputValue v2 decorate], s1))"

text \<open>
  The changes of one binding pass: for each input, \<open>None\<close> when it did not change and
  otherwise its new value. The framework assigns the inputs before it calls the hook;
  of these assignments only that of \<open>maxLength\<close> is read later.
\<close>

record SimpleChanges =
  maxLength_change :: "js_number option option"
  numeric_change :: "NumericInputOptions option option"
  value_change :: "js_value option"

definition ngOnChanges :: "SimpleChanges \<Rightarrow> InputComponent \<Rightarrow> effect list \<times> InputComponent" where
  "ngOnChanges changes s =
     (let s1 = (case numeric_change changes of
                  None \<Rightarrow> s
                | Some cur \<Rightarrow>
                    s\<lparr>numeric := (case cur of
                                    Some opts \<Rightarrow> Some (spread DEFAULT_NUMERIC_OPTIONS opts)
                                  | None \<Rightarrow> None)\<rparr>);
          (es, s2) = (case value_change changes of
                        None \<Rightarrow> ([], s1)
                      | Some v \<Rightarrow> valueStream_next v s1)
      in (es, invalidateProperties s2))"

text \<open>
  \<open>ngDoCheck\<close>, given the error formatter (\<open>FormControlErrorFormatter.getErrorMessage\<close>,
  a helper that is not among the sources) and the content child as it is at the check.
\<close>

definition ngDoCheck ::
  "(js_string \<Rightarrow> 'e option \<Rightarrow> js_value) \<Rightarrow> 'e FormControlName option \<Rightarrow> InputComponent \<Rightarrow> InputComponent" where
  "ngDoCheck getErrorMessage controlName s =
     (let s1 = s\<lparr>error := []\<rparr>
      in case controlName of
           None \<Rightarrow> s1
         | Some cn \<Rightarrow>
             (case control cn of
                None \<Rightarrow> s1
              | Some c \<Rightarrow>
                  (case errors c of
                     None \<Rightarrow> s1
                   | Some es \<Rightarrow>
                       s1\<lparr>error := join (js [CHR 0x08])
                                      (map (\<lambda>key. getErrorMessage key (getError c key))
                                         (map fst es))\<rparr>)))"

definition ngOnDestroy :: "InputComponent \<Rightarrow> InputComponent" where
  "ngOnDestroy s = s\<lparr>destroyed := True, commitPending := False\<rparr>"

definition writeValue :: "js_value \<Rightarrow> InputComponent \<Rightarrow> effect list \<times> InputComponent" where
  "writeValue v s = valueStream_next v s"

definition registerOnChange :: "InputComponent \<Rightarrow> InputComponent" where
  "registerOnChange s = s\<lparr>propagateChange := True\<rparr>"

definition onHostElementMouseDown :: "InputComponent \<Rightarrow> InputComponent" where
  "onHostElementMouseDown s = invalidateProperties (s\<lparr>mouseDownOccured := True\<rparr>)"

definition onInputElementBlur :: "InputComponent \<Rightarrow> InputComponent" where
  "onInputElementBlur s = invalidateProperties (s\<lparr>inputBlurOccured := True\<rparr>)"

definition onInputElementFocus :: "InputComponent \<Rightarrow> InputComponent" where
  "onInputElementFocus s = invalidateProperties (s\<lparr>inputFocusOccured := True\<rparr>)"

text \<open>
  The browser has put the edited text into the element before the event arrives; \<open>raw\<close> is
  the element's value as the handler reads it from the event. A text field holds no line
  break, so neither does \<open>raw\<close>; the model takes any string, which only widens what is
  proved of the handler.
\<close>

definition onInputElementInput :: "js_string \<Rightarrow> InputComponent \<Rightarrow> effect list \<times> InputComponent" where
  "onInputElementInput raw s = valueStream_next (JSString raw) (s\<lparr>inputElementValue := raw\<rparr>)"

text \<open>
  \<open>commitProperties\<close>. The call \<open>nativeElement.focus()\<close> makes the browser dispatch a focus
  event at once when the element did not have the focus; \<open>focus_event\<close> says whether it
  does, and then \<open>onInputElementFocus\<close> runs inside the call.
\<close>

definition commitProperties :: "bool \<Rightarrow> InputComponent \<Rightarrow> effect list \<times> InputComponent" where
  "commitProperties focus_event s =
     (if mouseDownOccured s \<or> inputFocusOccured s \<or> inputBlurOccured s then
        let focusReceived = (mouseDownOccured s \<or> inputFocusOccured s);
            focusStateChanged = (focused s \<noteq> focusReceived \<or> inputBlurOccured s);
            (es, s4) =
              (if focusStateChanged then
                 let s1 = s\<lparr>focused := focusReceived\<rparr>;
                     decorate = (\<not> focused s1 \<and> \<not> invalid s1);
                     s2 = setInputValue (currentValue s1) decorate s1;
                     s3 = (if focused s2 \<and> focus_event then onInputElementFocus s2 else s2)
                 in ([SetInputValue (currentValue s1) decorate]
                       @ (if focused s2 then [NativeElementFocus] else [])
                       @ [DetectChanges],
                     s3)
               else ([], s))
        in (es, s4\<lparr>mouseDownOccured := False, inputBlurOccured := False,
                     inputFocusOccured := False\<rparr>)
      else ([], s))"

text \<open>
  The events that drive the component: the lifecycle hooks, the value accessor, the DOM
  events of the template, and the debounce timer firing (with whether the \<open>focus()\<close>
  call dispatches a focus event).
\<close>

datatype 'e event =
    NgOnChanges SimpleChanges
  | NgDoCheck "'e FormControlName option"
  | NgOnDestroy
  | WriteValue js_value
  | RegisterOnChange
  | RegisterOnTouched
  | HostElementDoubleClick
  | HostElementMouseDown
  | InputElementBlur
  | InputElementFocus
  | InputElementInput js_string
  | InputElementMouseDown
  | CommitTimer bool

fun step ::
  "(js_string \<Rightarrow> 'e option \<Rightarrow> js_value) \<Rightarrow> 'e event \<Rightarrow> InputComponent \<Rightarrow> effect list \<times> InputComponent" where
  "step fmt (NgOnChanges changes) s =
     ngOnChanges changes
       (case maxLength_change changes of None \<Rightarrow> s | Some ml \<Rightarrow> s\<lparr>maxLength := ml\<rparr>)"
| "step fmt (NgDoCheck controlName) s = ([], ngDoCheck fmt controlName s)"
| "step fmt NgOnDestroy s = ([], ngOnDestroy s)"
| "step fmt (WriteValue v) s = writeValue v s"
| "step fmt RegisterOnChange s = ([], registerOnChange s)"
| "step fmt RegisterOnTouched s = ([], s)"
| "step fmt HostElementDoubleClick s = ([NativeElementSelect], s)"
| "step fmt HostElementMouseDown s = ([], onHostElementMouseDown s)"
| "step fmt InputElementBlur s = ([], onInputElementBlur s)"
| "step fmt InputElementFocus s = ([], onInputElementFocus s)"
| "step fmt (InputElementInput raw) s = onInputElementInput raw s"
| "step fmt InputElementMouseDown s = ([], s)"
| "step fmt (CommitTimer focus_event) s =
     (if commitPending s \<and> \<not> destroyed s
      then commitProperties focus_event (s\<lparr>commitPending := False\<rparr>)
      else ([], s))"

text \<open>The component after a sequence of events, from a given state.\<close>

definition run ::
  "(js_string \<Rightarrow> 'e option \<Rightarrow> js_value) \<Rightarrow> 'e event list \<Rightarrow> InputComponent \<Rightarrow> InputComponent" where
  "run fmt evs s = fold (\<lambda>ev s'. snd (step fmt ev s')) evs s"

text \<open>
  The relation between the displayed and the propagated value in its plain form: the
  two agree, or the component is unfocused and the displayed value is the propagated
  one, non-empty, with a percent sign appended.
\<close>

definition display_plain :: "InputComponent \<Rightarrow> bool" where
  "display_plain s \<longleftrightarrow>
     inputElementValue s = currentValue s
     \<or> (\<not> focused s \<and> currentValue s \<noteq> []
        \<and> inputElementValue s = currentValue s @ js ''%'')"

text \<open>
  The same relation as the element keeps it: the displayed value is the propagated one
  without its line breaks, or the component is unfocused and the displayed value is
  that text with a percent sign appended, the propagated value being non-empty.
\<close>

definition display_consistent :: "InputComponent \<Rightarrow> bool" where
  "display_consistent s \<longleftrightarrow>
     inputElementValue s = strip_newlines (currentValue s)
     \<or> (\<not> focused s \<and> currentValue s \<noteq> []
        \<and> inputElementValue s = strip_newlines (currentValue s) @ js ''%'')"

text \<open>A string without line feed and carriage return: the text field keeps it as it is.\<close>

definition no_newline :: "js_string \<Rightarrow> bool" where
  "no_newline v \<longleftrightarrow> (\<forall>c \<in> set v. c \<noteq> 0x0A \<and> c \<noteq> 0x0D)"

text \<open>A Number whose significand is not negative, as every Number the conversions make.\<close>

definition well_formed :: "js_number \<Rightarrow> bool" where
  "well_formed x \<longleftrightarrow> (case x of Finite neg m e \<Rightarrow> 0 \<le> m | _ \<Rightarrow> True)"

section \<open>Facts about the model\<close>

subsection \<open>Numbers\<close>

text \<open>
  A few conversions every engine agrees on, computed from the definitions above: leading
  zeros go, the empty string is zero, a fraction keeps its shortest digits, exponent
  notation starts at \<open>10^21\<close>, and text that is no numeric literal is \<open>NaN\<close>.
\<close>

lemma Number_toString_samples:
  "map (\<lambda>s. NumberToString (StringToNumber (js s)))
     [''007'', [], ''0.1'', '' 12 '', ''0x1F'', ''1e21'', ''-1.50'', ''12px'']
   = map js [''7'', ''0'', ''0.1'', ''12'', ''31'', ''1e+21'', ''-1.5'', ''NaN'']"
  by code_simp





subsection \<open>Printed Numbers hold no line break\<close>

text \<open>
  \<open>Number::toString\<close> writes digits, a point, a sign, an exponent mark, \<open>NaN\<close> or
  \<open>Infinity\<close>. So a value processed under a numeric configuration, which is such a print
  or empty, is a string the text field keeps unchanged.
\<close>

lemma no_newline_simps [simp]:
  "no_newline []"
  "no_newline (c # v) \<longleftrightarrow> c \<noteq> 0x0A \<and> c \<noteq> 0x0D \<and> no_newline v"
  "no_newline (u @ v) \<longleftrightarrow> no_newline u \<and> no_newline v"
  "no_newline (replicate n 0x30)"
  by (auto simp: no_newline_def)

lemma no_newline_take_drop: "no_newline v \<Longrightarrow> no_newline (take n v) \<and> no_newline (drop n v)"
  by (auto simp: no_newline_def dest: in_set_takeD in_set_dropD)

lemma no_newline_strip: "no_newline v \<Longrightarrow> strip_newlines v = v"
  by (simp add: no_newline_def strip_newlines_def)

lemma digit_char_no_newline:
  assumes "0 \<le> d" and "d < 10"
  shows "digit_char d \<noteq> 0x0A \<and> digit_char d \<noteq> 0x0D"
proof -
  from assms have "d = 0 \<or> d = 1 \<or> d = 2 \<or> d = 3 \<or> d = 4 \<or> d = 5 \<or> d = 6 \<or> d = 7
      \<or> d = 8 \<or> d = 9"
    by arith
  then show ?thesis by (auto simp: digit_char_def)
qed

lemma decimal_digits_no_newline: "0 \<le> n \<Longrightarrow> no_newline (decimal_digits n)"
proof (induction n rule: decimal_digits.induct)
  case (1 n)
  show ?case
  proof (cases "n < 10")
    case True
    with 1(2) show ?thesis
      by (subst decimal_digits.simps) (simp add: digit_char_no_newline)
  next
    case False
    then have "0 \<le> n div 10" by simp
    with 1(1) False have "no_newline (decimal_digits (n div 10))" by simp
    moreover have "digit_char (n mod 10) \<noteq> 0x0A \<and> digit_char (n mod 10) \<noteq> 0x0D"
      by (rule digit_char_no_newline) simp_all
    ultimately show ?thesis
      using False by (subst decimal_digits.simps) simp
  qed
qed

lemma layout_decimal_no_newline: "0 \<le> s \<Longrightarrow> no_newline (layout_decimal s n)"
  using no_newline_take_drop [OF decimal_digits_no_newline [of s]]
  by (simp add: layout_decimal_def Let_def decimal_digits_no_newline js_def)

lemma shortest_decimal_nonneg:
  "0 \<le> p \<Longrightarrow> 0 < q \<Longrightarrow> 0 \<le> fst (shortest_decimal p q m e n k)"
proof (induction p q m e n k rule: shortest_decimal.induct)
  case (1 p q m e n k)
  let ?x = "n - int k"
  let ?num = "if 0 \<le> ?x then p else p * 10 ^ nat (- ?x)"
  let ?den = "if 0 \<le> ?x then q * 10 ^ nat ?x else q"
  have num: "0 \<le> ?num" using 1(2) by simp
  have den: "0 < ?den" using 1(3) by simp
  have lo: "0 \<le> ?num div ?den"
    using num den by (simp only: pos_imp_zdiv_nonneg_iff)
  show ?case
    using lo 1
    by (subst shortest_decimal.simps) (auto simp: Let_def split: if_splits)
qed

lemma NumberToString_no_newline:
  "(case x of Finite neg m e \<Rightarrow> 0 \<le> m | _ \<Rightarrow> True) \<Longrightarrow> no_newline (NumberToString x)"
proof (cases x)
  case NaN
  then show ?thesis by (simp add: js_def)
next
  case (Infinity neg)
  then show ?thesis by (simp add: js_def)
next
  case (Finite neg m e)
  assume "case x of Finite neg m e \<Rightarrow> 0 \<le> m | _ \<Rightarrow> True"
  with Finite have m: "0 \<le> m" by simp
  let ?p = "if 0 \<le> e then m * 2 ^ nat e else m"
  let ?q = "if 0 \<le> e then 1 else (2 :: int) ^ nat (- e)"
  have "0 \<le> ?p" "0 < ?q" using m by simp_all
  then have "0 \<le> fst (shortest_decimal ?p ?q m e (decimal_exponent ?p ?q) 1)"
    by (rule shortest_decimal_nonneg)
  then show ?thesis
    using Finite
    by (simp add: Let_def case_prod_beta layout_decimal_no_newline js_def)
qed

lemma round_half_even_nonneg: "0 \<le> a \<Longrightarrow> 0 < b \<Longrightarrow> 0 \<le> round_half_even a b"
  by (simp add: round_half_even_def Let_def pos_imp_zdiv_nonneg_iff)

lemma number_value_for_well_formed:
  "0 \<le> p \<Longrightarrow> 0 < q \<Longrightarrow> well_formed (number_value_for neg p q)"
  by (simp add: number_value_for_def well_formed_def Let_def round_half_even_nonneg)

lemma digits_value_nonneg:
  assumes "0 \<le> radix" and "\<forall>c \<in> set ds. 0 \<le> val c"
  shows "0 \<le> digits_value radix val ds"
proof -
  have "0 \<le> a \<Longrightarrow> \<forall>c \<in> set ds. 0 \<le> val c \<Longrightarrow> 0 \<le> foldl (\<lambda>a c. radix * a + val c) a ds" for a
    using assms(1) by (induction ds arbitrary: a) simp_all
  with assms(2) show ?thesis by (simp add: digits_value_def)
qed

lemma digit_value_nonneg: "is_decimal_digit c \<Longrightarrow> 0 \<le> digit_value c"
  by (simp add: is_decimal_digit_def digit_value_def word_le_def)

lemma hex_digit_value_nonneg: "is_hex_digit c \<Longrightarrow> 0 \<le> hex_digit_value c"
  by (auto simp: is_hex_digit_def is_decimal_digit_def hex_digit_value_def word_le_def)

lemma octal_digit_value_nonneg: "is_octal_digit c \<Longrightarrow> 0 \<le> digit_value c"
  by (simp add: is_octal_digit_def digit_value_def word_le_def)

lemma binary_digit_value_nonneg: "is_binary_digit c \<Longrightarrow> 0 \<le> digit_value c"
  by (auto simp: is_binary_digit_def digit_value_def)

lemma non_decimal_integer_literal_nonneg:
  "non_decimal_integer_literal t = Some n \<Longrightarrow> 0 \<le> n"
  by (auto simp: non_decimal_integer_literal_def list_all_iff
      hex_digit_value_nonneg octal_digit_value_nonneg binary_digit_value_nonneg
      intro!: digits_value_nonneg split: list.splits if_splits)

lemma str_decimal_literal_well_formed: "well_formed (str_decimal_literal t)"
proof -
  obtain neg u where su: "split_sign t = (neg, u)" by (cases "split_sign t")
  define ip where "ip = takeWhile is_decimal_digit u"
  define r1 where "r1 = dropWhile is_decimal_digit u"
  define fp where "fp = (if r1 \<noteq> [] \<and> hd r1 = 0x2E then takeWhile is_decimal_digit (tl r1) else [])"
  define r2 where "r2 = (if r1 \<noteq> [] \<and> hd r1 = 0x2E then dropWhile is_decimal_digit (tl r1) else r1)"
  define d where "d = digits_value 10 digit_value (ip @ fp)"
  have "\<forall>c \<in> set (ip @ fp). is_decimal_digit c"
    by (auto simp: ip_def fp_def dest: set_takeWhileD)
  then have d: "0 \<le> d"
    unfolding d_def by (intro digits_value_nonneg) (auto simp: digit_value_nonneg)
  have nvf: "well_formed (number_value_for neg (d * 10 ^ n) 1)"
    "well_formed (number_value_for neg d (10 ^ n))" for n
    using d by (simp_all add: number_value_for_well_formed)
  have unfold: "str_decimal_literal t =
    (if u = js ''Infinity'' then Infinity neg
     else if ip = [] \<and> fp = [] then NaN
     else case exponent_part r2 of
            None \<Rightarrow> NaN
          | Some ex \<Rightarrow>
              if 0 \<le> ex - int (length fp)
              then number_value_for neg (d * 10 ^ nat (ex - int (length fp))) 1
              else number_value_for neg d (10 ^ nat (- (ex - int (length fp)))))"
    unfolding str_decimal_literal_def su ip_def r1_def fp_def r2_def d_def Let_def
    by (simp only: case_prod_conv)
  show ?thesis
    unfolding unfold
    by (simp add: nvf well_formed_def [of NaN] well_formed_def [of "Infinity neg"]
        split: option.split)
qed

lemma StringToNumber_well_formed: "well_formed (StringToNumber str)"
  by (auto simp: StringToNumber_def Let_def str_decimal_literal_well_formed
      number_value_for_well_formed non_decimal_integer_literal_nonneg
      well_formed_def [of "Finite False 0 0"] split: option.splits)

lemma applyNumericCompliance_no_newline: "no_newline (applyNumericCompliance v opts)"
proof -
  have "no_newline (NumberToString (StringToNumber w))" for w
    using StringToNumber_well_formed [of w]
    by (intro NumberToString_no_newline) (simp add: well_formed_def)
  then show ?thesis
    by (auto simp: applyNumericCompliance_def Let_def)
qed

lemma processInputValue_numeric_no_newline:
  "numeric s = Some opts \<Longrightarrow> strip_newlines (processInputValue s v) = processInputValue s v"
  by (simp add: processInputValue_def Let_def applyNumericCompliance_no_newline no_newline_strip)

subsection \<open>Where the length restriction holds\<close>

text \<open>
  Without a numeric configuration nothing follows the clamp, and the result is no longer
  than a positive \<open>maxLength\<close>, whole or fractional.
\<close>

lemma truncated_length_le:
  assumes "0 < m" and "int a \<le> (if 0 \<le> e then m * 2 ^ nat e else m div 2 ^ nat (- e))"
  shows "scaled_le (int a) (- e) m"
proof (cases "0 \<le> e")
  case True
  with assms(2) have "int a \<le> m * 2 ^ nat e" by simp
  with True show ?thesis
    by (cases "e = 0") (simp_all add: scaled_le_def)
next
  case False
  with assms(2) have "int a \<le> m div 2 ^ nat (- e)" by simp
  then have "int a * 2 ^ nat (- e) \<le> (m div 2 ^ nat (- e)) * 2 ^ nat (- e)"
    by (simp add: mult_right_mono)
  also have "\<dots> = m - m mod 2 ^ nat (- e)"
    by (simp add: minus_mod_eq_div_mult)
  also have "\<dots> \<le> m"
    by simp
  finally show ?thesis
    using False by (simp add: scaled_le_def)
qed

lemma maxLength_bounds_unconverted_text:
  assumes "numeric s = None" and "maxLength s = Some (Finite False m e)" and "0 < m"
  shows "\<not> length_greater (length (processInputValue s v)) (Finite False m e)
    \<and> (e = 0 \<longrightarrow> length (processInputValue s v) \<le> nat m)"
proof -
  let ?t = "if 0 \<le> e then m * 2 ^ nat e else m div 2 ^ nat (- e)"
  have t0: "0 \<le> ?t" using assms(3) by (simp add: pos_imp_zdiv_nonneg_iff)
  show ?thesis
  proof (cases "length_greater (length v) (Finite False m e)")
    case True
    then have r: "processInputValue s v = take (nat ?t) v"
      using assms by (simp add: processInputValue_def)
    have "int (length (take (nat ?t) v)) \<le> ?t"
      using t0 by (simp only: length_take) linarith
    then have "scaled_le (int (length (take (nat ?t) v))) (- e) m"
      using assms(3) by (rule truncated_length_le [rotated])
    moreover have "e = 0 \<longrightarrow> length (take (nat ?t) v) \<le> nat m"
      by simp
    ultimately show ?thesis
      by (simp add: r)
  next
    case False
    then have r: "processInputValue s v = v"
      using assms by (simp add: processInputValue_def)
    from False show ?thesis
      by (auto simp: r scaled_le_def)
  qed
qed

subsection \<open>The value stream and the interaction state\<close>

lemma strip_newlines_percent: "strip_newlines (v @ js ''%'') = strip_newlines v @ js ''%''"
  by (simp add: strip_newlines_def js_def)

lemma strip_newlines_Nil: "strip_newlines [] = []"
  by (simp add: strip_newlines_def)

lemma display_plain_if_no_newline:
  "display_consistent s \<Longrightarrow> strip_newlines (currentValue s) = currentValue s \<Longrightarrow> display_plain s"
  by (simp add: display_consistent_def display_plain_def)

lemma focused_setInputValue [simp]: "focused (setInputValue v d s) = focused s"
  by (simp add: setInputValue_def)

lemma destroyed_invalidateProperties [simp]:
  "destroyed (invalidateProperties s) = destroyed s"
  by (simp add: invalidateProperties_def)

lemma destroyed_valueStream_next [simp]:
  "destroyed (snd (valueStream_next v s)) = destroyed s"
  by (simp add: valueStream_next_def setInputValue_def Let_def)

lemma destroyed_step: "destroyed s \<Longrightarrow> destroyed (snd (step fmt ev s))"
  by (cases ev)
    (auto simp: ngOnChanges_def valueStream_next_def writeValue_def onInputElementInput_def
      invalidateProperties_def onInputElementFocus_def onInputElementBlur_def
      onHostElementMouseDown_def ngDoCheck_def ngOnDestroy_def registerOnChange_def Let_def
      split: option.splits prod.splits)

lemma run_Nil: "run fmt [] s = s"
  by (simp add: run_def)

lemma run_Cons: "run fmt (ev # evs) s = run fmt evs (snd (step fmt ev s))"
  by (simp add: run_def)

lemma destroyed_run: "destroyed s \<Longrightarrow> destroyed (run fmt evs s)"
  by (induction evs arbitrary: s) (simp_all add: run_Nil run_Cons destroyed_step)

text \<open>
  A value that passes through the live stream leaves the display consistent, whatever
  the state before.
\<close>

lemma valueStream_next_consistent:
  "\<not> destroyed s \<Longrightarrow> display_consistent (snd (valueStream_next v s))"
  by (auto simp: valueStream_next_def display_consistent_def setInputValue_def Let_def
      getDecoratedValue_def toPercentString_def strip_newlines_percent split: option.splits)

lemma commitProperties_consistent:
  "display_consistent s \<Longrightarrow> display_consistent (snd (commitProperties fe s))"
  by (auto simp: commitProperties_def display_consistent_def setInputValue_def Let_def
      getDecoratedValue_def toPercentString_def onInputElementFocus_def invalidateProperties_def
      strip_newlines_percent split: option.splits)

text \<open>
  A value that arrives while the component is unfocused and the percents flag is set is
  shown as the processed value followed by the percent sign, exactly.
\<close>

lemma percents_display_of_processed_value:
  assumes "numeric s = Some opts" and "truthy (percents opts)"
    and "\<not> destroyed s" and "\<not> focused s"
  shows "inputElementValue (snd (valueStream_next v s))
    = (if processInputValue s (null_to_empty v) = [] then []
       else processInputValue s (null_to_empty v) @ js ''%'')"
  using assms
  by (simp add: valueStream_next_def setInputValue_def getDecoratedValue_def
      toPercentString_def Let_def strip_newlines_percent strip_newlines_Nil
      processInputValue_numeric_no_newline)

lemma ngOnChanges_consistent:
  assumes "display_consistent s" and "\<not> destroyed (snd (ngOnChanges changes s))"
  shows "display_consistent (snd (ngOnChanges changes s))"
proof -
  define s1 where "s1 =
    (case numeric_change changes of
       None \<Rightarrow> s
     | Some cur \<Rightarrow>
         s\<lparr>numeric := (case cur of
                         Some opts \<Rightarrow> Some (spread DEFAULT_NUMERIC_OPTIONS opts)
                       | None \<Rightarrow> None)\<rparr>)"
  have c1: "display_consistent s1"
    using assms(1) by (auto simp: s1_def display_consistent_def split: option.splits)
  have post: "snd (ngOnChanges changes s) =
    invalidateProperties (case value_change changes of
                            None \<Rightarrow> s1
                          | Some v \<Rightarrow> snd (valueStream_next v s1))"
    by (simp add: ngOnChanges_def s1_def Let_def case_prod_beta split: option.splits)
  have inv: "display_consistent (invalidateProperties t) = display_consistent t" for t
    by (simp add: invalidateProperties_def display_consistent_def)
  show ?thesis
  proof (cases "value_change changes")
    case None
    with c1 show ?thesis by (simp add: post inv)
  next
    case (Some v)
    with assms(2) have "\<not> destroyed s1"
      by (simp add: post)
    then have "display_consistent (snd (valueStream_next v s1))"
      by (rule valueStream_next_consistent)
    with Some show ?thesis by (simp add: post inv)
  qed
qed

lemma step_consistent:
  assumes "display_consistent s" and "\<not> destroyed (snd (step fmt ev s))"
  shows "display_consistent (snd (step fmt ev s))"
proof (cases ev)
  case (NgOnChanges changes)
  let ?s0 = "case maxLength_change changes of None \<Rightarrow> s | Some ml \<Rightarrow> s\<lparr>maxLength := ml\<rparr>"
  have "display_consistent ?s0"
    using assms(1) by (auto simp: display_consistent_def split: option.splits)
  moreover have "\<not> destroyed (snd (ngOnChanges changes ?s0))"
    using assms(2) NgOnChanges by simp
  ultimately have "display_consistent (snd (ngOnChanges changes ?s0))"
    by (rule ngOnChanges_consistent)
  with NgOnChanges show ?thesis by simp
next
  case (NgDoCheck controlName)
  with assms(1) show ?thesis
    by (auto simp: ngDoCheck_def display_consistent_def Let_def split: option.splits)
next
  case NgOnDestroy
  with assms(2) show ?thesis by (simp add: ngOnDestroy_def)
next
  case (WriteValue v)
  with assms(2) have "\<not> destroyed s"
    by (simp add: writeValue_def)
  with WriteValue show ?thesis
    by (simp add: writeValue_def valueStream_next_consistent)
next
  case RegisterOnChange
  with assms(1) show ?thesis by (simp add: registerOnChange_def display_consistent_def)
next
  case RegisterOnTouched
  with assms(1) show ?thesis by simp
next
  case HostElementDoubleClick
  with assms(1) show ?thesis by simp
next
  case HostElementMouseDown
  with assms(1) show ?thesis
    by (simp add: onHostElementMouseDown_def invalidateProperties_def display_consistent_def)
next
  case InputElementBlur
  with assms(1) show ?thesis
    by (simp add: onInputElementBlur_def invalidateProperties_def display_consistent_def)
next
  case InputElementFocus
  with assms(1) show ?thesis
    by (simp add: onInputElementFocus_def invalidateProperties_def display_consistent_def)
next
  case (InputElementInput raw)
  with assms(2) have "\<not> destroyed (s\<lparr>inputElementValue := raw\<rparr>)"
    by (simp add: onInputElementInput_def)
  with InputElementInput show ?thesis
    by (simp add: onInputElementInput_def valueStream_next_consistent)
next
  case InputElementMouseDown
  with assms(1) show ?thesis by simp
next
  case (CommitTimer fe)
  have "display_consistent (s\<lparr>commitPending := False\<rparr>)"
    using assms(1) by (simp add: display_consistent_def)
  then have "display_consistent (snd (commitProperties fe (s\<lparr>commitPending := False\<rparr>)))"
    by (rule commitProperties_consistent)
  with CommitTimer assms(1) show ?thesis by simp
qed

lemma run_consistent:
  "display_consistent s \<Longrightarrow> \<not> destroyed (run fmt evs s) \<Longrightarrow> display_consistent (run fmt evs s)"
proof (induction evs arbitrary: s)
  case Nil
  then show ?case by (simp add: run_Nil)
next
  case (Cons ev evs)
  from Cons.prems(2) have "\<not> destroyed (snd (step fmt ev s))"
    unfolding run_Cons using destroyed_run by blast
  with Cons.prems(1) have "display_consistent (snd (step fmt ev s))"
    by (rule step_consistent)
  with Cons.IH Cons.prems(2) show ?case
    unfolding run_Cons by blast
qed

lemma getError_entry:
  "errors c = Some es \<Longrightarrow> distinct (map fst es) \<Longrightarrow> (key, e) \<in> set es \<Longrightarrow> getError c key = Some e"
  by (simp add: getError_def)

section \<open>The claims\<close>

text \<open>
  C1. In integer mode the result of \<open>applyNumericCompliance\<close> should consist of digit
  characters only. The code strips the non-digits and then passes the digits through
  \<open>Number(...).toString()\<close>, which writes a value from \<open>10^21\<close> on in exponent notation:
  for the 22 digits \<open>1000000000000000000000\<close> the result is \<open>1e+21\<close>, with a letter and a
  sign in it.
\<close>

theorem applyNumericCompliance_integer_exponent_notation:
  "applyNumericCompliance (js ''1000000000000000000000'')
     \<lparr>integer = Some True, preventEmpty = None, percents = None\<rparr> = js ''1e+21''
   \<and> \<not> list_all is_decimal_digit (js ''1e+21'')"
proof -
  have "applyNumericCompliance (js ''1000000000000000000000'')
          \<lparr>integer = Some True, preventEmpty = None, percents = None\<rparr> = js ''1e+21''"
    by code_simp
  moreover have "\<not> list_all is_decimal_digit (js ''1e+21'')"
    by code_simp
  ultimately show ?thesis by simp
qed



text \<open>
  C3. A value that enters the value stream and whose processed form equals \<open>currentValue\<close>
  is not propagated: neither \<open>propagateChange\<close> is called nor \<open>valueChange\<close> emits. Whenever
  one of the two happens, it carries the processed value, and that value differs from
  the stored one.
\<close>

theorem no_propagation_of_unchanged_value:
  "(processInputValue s (null_to_empty v) = currentValue s \<longrightarrow>
      (\<forall>x. PropagateChange x \<notin> set (fst (valueStream_next v s))
         \<and> ValueChangeEmit x \<notin> set (fst (valueStream_next v s))))
   \<and> (PropagateChange x \<in> set (fst (valueStream_next v s))
        \<or> ValueChangeEmit x \<in> set (fst (valueStream_next v s)) \<longrightarrow>
      x = processInputValue s (null_to_empty v)
      \<and> processInputValue s (null_to_empty v) \<noteq> currentValue s)"
  by (simp add: valueStream_next_def Let_def setInputValue_def)

theorem no_propagation_of_unchanged_value_witness:
  "processInputValue (init\<lparr>currentValue := js ''a''\<rparr>) (null_to_empty (JSString (js ''a'')))
     = currentValue (init\<lparr>currentValue := js ''a''\<rparr>)
   \<and> ValueChangeEmit (js ''a'')
        \<notin> set (fst (valueStream_next (JSString (js ''a'')) (init\<lparr>currentValue := js ''a''\<rparr>)))
   \<and> ValueChangeEmit (js ''b'')
        \<in> set (fst (valueStream_next (JSString (js ''b'')) (init\<lparr>currentValue := js ''a''\<rparr>)))
   \<and> processInputValue (init\<lparr>currentValue := js ''a''\<rparr>) (null_to_empty (JSString (js ''b'')))
     \<noteq> currentValue (init\<lparr>currentValue := js ''a''\<rparr>)"
proof -
  let ?S = "init\<lparr>currentValue := js ''a''\<rparr>"
  have p: "processInputValue t w = w" if "maxLength t = None" and "numeric t = None" for t w
    using that by (simp add: processInputValue_def)
  have h1: "processInputValue ?S (null_to_empty (JSString (js ''a''))) = currentValue ?S"
    by (simp add: p null_to_empty_def init_def)
  have ab: "js ''b'' \<noteq> js ''a''" by (simp add: js_def)
  have h2: "ValueChangeEmit (js ''b'') \<in> set (fst (valueStream_next (JSString (js ''b'')) ?S))"
    using ab by (simp add: valueStream_next_def Let_def p null_to_empty_def setInputValue_def init_def)
  from no_propagation_of_unchanged_value
         [where s = "init\<lparr>currentValue := js ''a''\<rparr>" and v = "JSString (js ''a'')"] h1
  have c1: "ValueChangeEmit (js ''a'') \<notin> set (fst (valueStream_next (JSString (js ''a'')) ?S))"
    by blast
  from no_propagation_of_unchanged_value
         [where s = "init\<lparr>currentValue := js ''a''\<rparr>" and v = "JSString (js ''b'')"
            and x = "js ''b''"] h2
  have c2: "processInputValue ?S (null_to_empty (JSString (js ''b''))) \<noteq> currentValue ?S"
    by blast
  from h1 c1 h2 c2 show ?thesis by blast
qed

text \<open>
  C4, as the code has it. In every state the component reaches from its initial state
  while its streams are live, so in particular after every value event and every commit,
  the element's value is \<open>currentValue\<close> without its line breaks, which the text field
  drops when a value is assigned to it, or the component is unfocused and the element
  shows that text with the percent sign appended. Where \<open>currentValue\<close> holds no line
  break, the element's value equals it or, only while unfocused, differs from it by
  exactly the percent sign.
\<close>

theorem display_diverges_only_by_decoration:
  "\<not> destroyed (run fmt evs init) \<Longrightarrow>
     display_consistent (run fmt evs init)
     \<and> (strip_newlines (currentValue (run fmt evs init)) = currentValue (run fmt evs init) \<longrightarrow>
          display_plain (run fmt evs init))"
proof -
  assume live: "\<not> destroyed (run fmt evs init)"
  have "display_consistent init"
    by (simp add: display_consistent_def init_def strip_newlines_Nil)
  then have "display_consistent (run fmt evs init)"
    using live by (rule run_consistent)
  then show ?thesis
    by (simp add: display_plain_if_no_newline)
qed

theorem display_diverges_only_by_decoration_witness:
  "\<not> destroyed
       (run (\<lambda>key (e :: unit option). JSString key)
          [NgOnChanges \<lparr>maxLength_change = None,
             numeric_change = Some (Some \<lparr>integer = None, preventEmpty = None, percents = Some True\<rparr>),
             value_change = Some (JSString (js ''42''))\<rparr>,
           InputElementFocus, CommitTimer True, InputElementInput (js ''4x21''),
           InputElementBlur, CommitTimer False]
          init)
   \<and> display_plain
       (run (\<lambda>key (e :: unit option). JSString key)
          [NgOnChanges \<lparr>maxLength_change = None,
             numeric_change = Some (Some \<lparr>integer = None, preventEmpty = None, percents = Some True\<rparr>),
             value_change = Some (JSString (js ''42''))\<rparr>,
           InputElementFocus, CommitTimer True, InputElementInput (js ''4x21''),
           InputElementBlur, CommitTimer False]
          init)
   \<and> currentValue
       (run (\<lambda>key (e :: unit option). JSString key)
          [NgOnChanges \<lparr>maxLength_change = None,
             numeric_change = Some (Some \<lparr>integer = None, preventEmpty = None, percents = Some True\<rparr>),
             value_change = Some (JSString (js ''42''))\<rparr>,
           InputElementFocus, CommitTimer True, InputElementInput (js ''4x21''),
           InputElementBlur, CommitTimer False]
          init) = js ''421''
   \<and> inputElementValue
       (run (\<lambda>key (e :: unit option). JSString key)
          [NgOnChanges \<lparr>maxLength_change = None,
             numeric_change = Some (Some \<lparr>integer = None, preventEmpty = None, percents = Some True\<rparr>),
             value_change = Some (JSString (js ''42''))\<rparr>,
           InputElementFocus, CommitTimer True, InputElementInput (js ''4x21''),
           InputElementBlur, CommitTimer False]
          init) = js ''421%''"
proof -
  let ?r = "run (\<lambda>key (e :: unit option). JSString key)
          [NgOnChanges \<lparr>maxLength_change = None,
             numeric_change = Some (Some \<lparr>integer = None, preventEmpty = None, percents = Some True\<rparr>),
             value_change = Some (JSString (js ''42''))\<rparr>,
           InputElementFocus, CommitTimer True, InputElementInput (js ''4x21''),
           InputElementBlur, CommitTimer False]
          init"
  have h: "\<not> destroyed ?r" by code_simp
  have c: "currentValue ?r = js ''421''" by code_simp
  have v: "inputElementValue ?r = js ''421%''" by code_simp
  have n: "strip_newlines (js ''421'') = js ''421''" by (simp add: js_def strip_newlines_def)
  from display_diverges_only_by_decoration [OF h] h c v n show ?thesis by simp
qed

text \<open>
  C4, as the claim states it, fails for a value with a line break: after
  \<open>writeValue\<close> of \<open>a\<close>, line feed, \<open>b\<close> with no numeric configuration, \<open>currentValue\<close> is
  that string and the element holds \<open>ab\<close>, which is neither \<open>currentValue\<close> nor \<open>currentValue\<close>
  with a percent sign.
\<close>

theorem display_line_break_counterexample:
  "\<not> destroyed
       (run (\<lambda>key (e :: unit option). JSString key)
          [WriteValue (JSString (js [CHR ''a'', CHR 0x0A, CHR ''b'']))] init)
   \<and> currentValue
       (run (\<lambda>key (e :: unit option). JSString key)
          [WriteValue (JSString (js [CHR ''a'', CHR 0x0A, CHR ''b'']))] init)
     = js [CHR ''a'', CHR 0x0A, CHR ''b'']
   \<and> inputElementValue
       (run (\<lambda>key (e :: unit option). JSString key)
          [WriteValue (JSString (js [CHR ''a'', CHR 0x0A, CHR ''b'']))] init)
     = js ''ab''
   \<and> \<not> display_plain
       (run (\<lambda>key (e :: unit option). JSString key)
          [WriteValue (JSString (js [CHR ''a'', CHR 0x0A, CHR ''b'']))] init)"
  by code_simp

text \<open>
  C5. Whatever event the component handles, a call of \<open>setInputValue\<close> with \<open>decorate\<close>
  true happens only while \<open>focused\<close> is false. The calls are those of \<open>commitProperties\<close>
  and of the value stream; neither assigns \<open>focused\<close> after its call, so the flag in the
  state after the event is the flag at the call.
\<close>

theorem decorate_only_while_unfocused:
  "SetInputValue v True \<in> set (fst (step fmt ev s)) \<Longrightarrow> \<not> focused (snd (step fmt ev s))"
  by (cases ev)
    (auto simp: ngOnChanges_def valueStream_next_def writeValue_def onInputElementInput_def
      commitProperties_def invalidateProperties_def onInputElementFocus_def Let_def
      setInputValue_def
      split: option.splits if_splits prod.splits)

theorem decorate_only_while_unfocused_witness:
  "SetInputValue (js ''7'') True
     \<in> set (fst (step (\<lambda>key (e :: unit option). JSString key) (WriteValue (JSString (js ''7''))) init))
   \<and> \<not> focused (snd (step (\<lambda>key (e :: unit option). JSString key) (WriteValue (JSString (js ''7''))) init))"
proof -
  have h: "SetInputValue (js ''7'') True
     \<in> set (fst (step (\<lambda>key (e :: unit option). JSString key) (WriteValue (JSString (js ''7''))) init))"
    by (simp add: writeValue_def valueStream_next_def Let_def processInputValue_def
        null_to_empty_def setInputValue_def init_def)
  from decorate_only_while_unfocused [OF h] h show ?thesis by simp
qed

text \<open>
  C6. With a positive \<open>maxLength\<close> the result of \<open>processInputValue\<close> should be no longer
  than \<open>maxLength\<close>. The code clamps first and converts afterwards, and the conversion
  can lengthen the text: with \<open>maxLength\<close> 16 in integer mode the sixteen digits
  \<open>9999999999999999\<close> pass the clamp, round to \<open>10^16\<close> as a Number, and come back as
  seventeen characters.
\<close>

theorem processInputValue_exceeds_maxLength:
  "processInputValue
     (init\<lparr>maxLength := Some (Finite False 16 0),
           numeric := Some \<lparr>integer = Some True, preventEmpty = None, percents = None\<rparr>\<rparr>)
     (js ''9999999999999999'') = js ''10000000000000000''
   \<and> length (js ''9999999999999999'') = 16
   \<and> length (js ''10000000000000000'') = 17"
proof -
  have "processInputValue
     (init\<lparr>maxLength := Some (Finite False 16 0),
           numeric := Some \<lparr>integer = Some True, preventEmpty = None, percents = None\<rparr>\<rparr>)
     (js ''9999999999999999'') = js ''10000000000000000''"
    by code_simp
  then show ?thesis by (simp add: js_def)
qed

text \<open>
  C7. After \<open>ngDoCheck\<close>, when a control is bound and has an errors object, \<open>error\<close> is the
  formatted message of every error of the object, in the object's order, joined by the
  separator (a backspace character); when no control is bound, or the control has no
  errors, \<open>error\<close> is the empty string.
\<close>

theorem ngDoCheck_error:
  "(controlName = Some cn \<and> control cn = Some c \<and> errors c = Some es \<and> distinct (map fst es) \<longrightarrow>
      error (ngDoCheck fmt controlName s)
        = join (js [CHR 0x08]) (map (\<lambda>(key, e). fmt key (Some e)) es))
   \<and> (controlName = None
        \<or> (\<exists>cn. controlName = Some cn
              \<and> (control cn = None \<or> (\<exists>c. control cn = Some c \<and> errors c = None))) \<longrightarrow>
      error (ngDoCheck fmt controlName s) = [])"
proof -
  have eq: "map ((\<lambda>key. fmt key (getError c key)) \<circ> fst) es = map (\<lambda>(key, e). fmt key (Some e)) es"
    if "errors c = Some es" and "distinct (map fst es)"
    using that by (auto simp: getError_entry)
  show ?thesis
    by (auto simp: ngDoCheck_def Let_def eq)
qed

theorem ngDoCheck_error_witness:
  "error (ngDoCheck (\<lambda>key (e :: unit option). JSString key)
            (Some \<lparr>control = Some \<lparr>errors = Some [(js ''required'', ()), (js ''min'', ())]\<rparr>\<rparr>)
            init)
     = js ''required'' @ js [CHR 0x08] @ js ''min''
   \<and> error (ngDoCheck (\<lambda>key (e :: unit option). JSString key)
            (Some \<lparr>control = Some \<lparr>errors = None\<rparr>\<rparr>) (init\<lparr>error := js ''old''\<rparr>)) = []"
proof -
  let ?F = "\<lambda>key (e :: unit option). JSString key"
  let ?ES = "[(js ''required'', ()), (js ''min'', ())]"
  let ?K = "\<lparr>errors = Some ?ES\<rparr>"
  let ?N = "\<lparr>control = Some ?K\<rparr>"
  let ?L = "\<lparr>errors = None :: (js_string \<times> unit) list option\<rparr>"
  let ?M = "\<lparr>control = Some ?L\<rparr>"
  have d: "distinct (map fst ?ES)" by (simp add: js_def)
  from ngDoCheck_error
         [where controlName =
                  "Some \<lparr>control = Some \<lparr>errors = Some [(js ''required'', ()), (js ''min'', ())]\<rparr>\<rparr>"
            and cn = "\<lparr>control = Some \<lparr>errors = Some [(js ''required'', ()), (js ''min'', ())]\<rparr>\<rparr>"
            and c = "\<lparr>errors = Some [(js ''required'', ()), (js ''min'', ())]\<rparr>"
            and es = "[(js ''required'', ()), (js ''min'', ())]"
            and fmt = "\<lambda>key (e :: unit option). JSString key"
            and s = init] d
  have a: "error (ngDoCheck ?F (Some ?N) init)
             = join (js [CHR 0x08]) (map (\<lambda>(key, e). ?F key (Some e)) ?ES)"
    by simp
  have b: "join (js [CHR 0x08]) (map (\<lambda>(key, e). ?F key (Some e)) ?ES)
             = js ''required'' @ js [CHR 0x08] @ js ''min''"
    by (simp add: join_element_def)
  from ngDoCheck_error
         [where controlName = "Some \<lparr>control = Some \<lparr>errors = None\<rparr>\<rparr>"
            and fmt = "\<lambda>key (e :: unit option). JSString key"
            and s = "init\<lparr>error := js ''old''\<rparr>"]
  have c: "error (ngDoCheck ?F (Some ?M) (init\<lparr>error := js ''old''\<rparr>)) = []"
    by simp
  from a b c show ?thesis by simp
qed





text \<open>
  C10. A run of \<open>commitProperties\<close> that finds one of the three occurrence flags set
  leaves all three false, and leaves \<open>focused\<close> equal to whether the batch held a
  mouse-down or a focus; a batch with only a blur leaves it false.
\<close>

theorem commitProperties_resets_flags:
  assumes "mouseDownOccured s \<or> inputFocusOccured s \<or> inputBlurOccured s"
  shows "\<not> mouseDownOccured (snd (commitProperties fe s))
    \<and> \<not> inputFocusOccured (snd (commitProperties fe s))
    \<and> \<not> inputBlurOccured (snd (commitProperties fe s))
    \<and> focused (snd (commitProperties fe s)) = (mouseDownOccured s \<or> inputFocusOccured s)"
  using assms
  by (auto simp: commitProperties_def Let_def setInputValue_def onInputElementFocus_def
      invalidateProperties_def)

theorem commitProperties_resets_flags_witness:
  "inputBlurOccured (init\<lparr>focused := True, inputBlurOccured := True\<rparr>)
   \<and> \<not> inputBlurOccured (snd (commitProperties True (init\<lparr>focused := True, inputBlurOccured := True\<rparr>)))
   \<and> \<not> focused (snd (commitProperties True (init\<lparr>focused := True, inputBlurOccured := True\<rparr>)))
   \<and> mouseDownOccured (init\<lparr>mouseDownOccured := True\<rparr>)
   \<and> \<not> inputFocusOccured (snd (commitProperties True (init\<lparr>mouseDownOccured := True\<rparr>)))
   \<and> focused (snd (commitProperties True (init\<lparr>mouseDownOccured := True\<rparr>)))"
proof -
  let ?S = "init\<lparr>focused := True, inputBlurOccured := True\<rparr>"
  let ?T = "init\<lparr>mouseDownOccured := True\<rparr>"
  have h: "mouseDownOccured ?S \<or> inputFocusOccured ?S \<or> inputBlurOccured ?S"
    by simp
  have k: "mouseDownOccured ?T \<or> inputFocusOccured ?T \<or> inputBlurOccured ?T"
    by simp
  have f: "\<not> mouseDownOccured ?S" "\<not> inputFocusOccured ?S" "\<not> inputFocusOccured ?T"
    by (simp_all add: init_def)
  from commitProperties_resets_flags [OF h, where fe = True]
    commitProperties_resets_flags [OF k, where fe = True] f
  show ?thesis by simp
qed

end
